theory Spec2Isabelle
  imports Main "HOL-Library.AList"
begin

section \<open>Global Health Explorer: the data shaping of \<^verbatim>\<open>global_health_dashboard.py\<close>\<close>

text \<open>
  The dashboard is one script: it loads \<^verbatim>\<open>dashboard_data.json\<close>, assembles a pandas
  table with one row per country, filters the rows by the cluster check boxes and shows
  per-cluster profiles and the details of one selected country. The definitions below
  follow the script statement by statement; the charting calls are external and appear
  only where they can stop the script.
\<close>

subsection \<open>Python values\<close>

text \<open>
  The exceptions the modelled statements can raise. \<open>StopException\<close> is what
  \<^verbatim>\<open>st.stop()\<close> raises to end the run of the script.
\<close>

datatype pyerror = FileNotFoundError | KeyError string | ValueError | IndexError | StopException

text \<open>
  A finite Python float is an IEEE double: a sign bit and the magnitude
  \<open>mant * 2 ^ expo\<close>. The non-finite floats (\<^verbatim>\<open>NaN\<close>, \<^verbatim>\<open>Infinity\<close>, which Python's
  parser accepts beyond the JSON standard) are outside this model, and a JSON integer
  literal in the place of a float is represented by the float it converts to when it is
  formatted.
\<close>

datatype pyfloat = PyFloat (neg: bool) (mant: nat) (expo: int)

text \<open>Sequential composition of statements that may raise.\<close>

definition bind_err :: "pyerror + 'a \<Rightarrow> ('a \<Rightarrow> pyerror + 'b) \<Rightarrow> pyerror + 'b" where
  "bind_err m f = (case m of Inl e \<Rightarrow> Inl e | Inr v \<Rightarrow> f v)"

text \<open>\<^verbatim>\<open>d[k]\<close> on a dict, which is kept as the list of its items in insertion order.\<close>

definition getitem :: "(string \<times> 'v) list \<Rightarrow> string \<Rightarrow> pyerror + 'v" where
  "getitem d k = (case map_of d k of None \<Rightarrow> Inl (KeyError k) | Some v \<Rightarrow> Inr v)"

text \<open>\<^verbatim>\<open>data[k]\<close> for a top-level key of the document, which may be absent.\<close>

definition getkey :: "'v option \<Rightarrow> string \<Rightarrow> pyerror + 'v" where
  "getkey field k = (case field of None \<Rightarrow> Inl (KeyError k) | Some v \<Rightarrow> Inr v)"

subsection \<open>Number formatting\<close>

text \<open>
  \<^verbatim>\<open>str(n)\<close> for a natural number: its decimal digits, most significant first.
\<close>

definition digit :: "nat \<Rightarrow> char" where
  "digit d = ''0123456789'' ! d"

function dec :: "nat \<Rightarrow> string" where
  "dec n = (if n < 10 then [digit n] else dec (n div 10) @ [digit (n mod 10)])"
  by pat_completeness auto
termination
  by (relation "measure (\<lambda>n. n)") auto

declare dec.simps [simp del]

text \<open>\<^verbatim>\<open>str(c)\<close> for an int.\<close>

definition str_int :: "int \<Rightarrow> string" where
  "str_int c = (if c < 0 then ''-'' @ dec (nat (- c)) else dec (nat c))"

text \<open>
  The format type \<^verbatim>\<open>f\<close> prints the exact value of the double, rounded to the requested
  number of decimal places, ties to the even digit. \<open>scaled k v\<close> is that rounded
  magnitude in units of \<open>10 ^ - k\<close>.
\<close>

definition round_half_even :: "nat \<Rightarrow> nat \<Rightarrow> nat" where
  "round_half_even num den =
     (let q = num div den; r = num mod den
      in if den < 2 * r \<or> (2 * r = den \<and> odd q) then q + 1 else q)"

definition scaled :: "nat \<Rightarrow> pyfloat \<Rightarrow> nat" where
  "scaled k v =
     (if 0 \<le> expo v then mant v * 2 ^ nat (expo v) * 10 ^ k
      else round_half_even (mant v * 10 ^ k) (2 ^ nat (- expo v)))"

text \<open>The sign is printed whenever the sign bit is set, also in front of a zero.\<close>

definition sign_str :: "pyfloat \<Rightarrow> string" where
  "sign_str v = (if neg v then ''-'' else '''')"

text \<open>
  The \<^verbatim>\<open>,\<close> option: a comma before every group of three digits, counted from the
  right. \<open>group3\<close> works on the reversed digits.
\<close>

fun group3 :: "string \<Rightarrow> string" where
  "group3 (a # b # c # d # ds) = a # b # c # CHR '','' # group3 (d # ds)"
| "group3 ds = ds"

definition commas :: "string \<Rightarrow> string" where
  "commas ds = rev (group3 (rev ds))"

text \<open>\<^verbatim>\<open>f"${val:,.0f}"\<close>\<close>

definition fmt_currency :: "pyfloat \<Rightarrow> string" where
  "fmt_currency v = ''$'' @ sign_str v @ commas (dec (scaled 0 v))"

text \<open>\<^verbatim>\<open>f"{val:.1f}"\<close>\<close>

definition fmt_1f :: "pyfloat \<Rightarrow> string" where
  "fmt_1f v = (let n = scaled 1 v in sign_str v @ dec (n div 10) @ ''.'' @ dec (n mod 10))"

text \<open>\<^verbatim>\<open>sub in s\<close> on strings.\<close>

fun starts_with :: "string \<Rightarrow> string \<Rightarrow> bool" where
  "starts_with [] s = True"
| "starts_with (p # ps) [] = False"
| "starts_with (p # ps) (c # cs) = (p = c \<and> starts_with ps cs)"

fun contains :: "string \<Rightarrow> string \<Rightarrow> bool" where
  "contains sub [] = (sub = [])"
| "contains sub (c # cs) = (starts_with sub (c # cs) \<or> contains sub cs)"

text \<open>
  The text of a value in the cluster profiles and in the country details (lines 228-231
  and 252-255): currency when the indicator's name contains \<^verbatim>\<open>GDP\<close>, one decimal
  place otherwise.
\<close>

definition fmt_value :: "string \<Rightarrow> pyfloat \<Rightarrow> string" where
  "fmt_value ind_name v = (if contains ''GDP'' ind_name then fmt_currency v else fmt_1f v)"

text \<open>The text of one metric of the country details (lines 251-257).\<close>

definition metric_text :: "string \<Rightarrow> pyfloat option \<Rightarrow> string" where
  "metric_text ind_name val =
     (case val of Some v \<Rightarrow> fmt_value ind_name v | None \<Rightarrow> ''N/A'')"

subsection \<open>The document\<close>

text \<open>
  \<^verbatim>\<open>data\<close>, the parsed document. Every top-level key may be absent (\<open>None\<close>); a key
  that is present has the type of the schema. A dict is the list of its items in
  insertion order. The key \<^verbatim>\<open>variance_explained\<close> is only pasted into the axis titles
  and is left out.
\<close>

record embedding =
  emb_x :: "pyfloat list option"
  emb_y :: "pyfloat list option"

record dataset =
  countries :: "string list option"
  clusters :: "int list option"
  cluster_labels :: "(string \<times> string) list option"
  embeddings :: "(string \<times> embedding) list option"
  indicators :: "(string \<times> pyfloat option list) list option"
  cluster_averages :: "(string \<times> (string \<times> pyfloat option) list) list option"

text \<open>\<^verbatim>\<open>data.get('indicators', {})\<close>\<close>

definition get_indicators :: "dataset \<Rightarrow> (string \<times> pyfloat option list) list" where
  "get_indicators d = (case indicators d of None \<Rightarrow> [] | Some inds \<Rightarrow> inds)"

text \<open>\<^verbatim>\<open>xs.index(v)\<close> and \<^verbatim>\<open>xs[i]\<close> for an index that is not negative.\<close>

fun index_of :: "'a list \<Rightarrow> 'a \<Rightarrow> pyerror + nat" where
  "index_of [] v = Inl ValueError"
| "index_of (x # xs) v =
     (if x = v then Inr 0 else bind_err (index_of xs v) (\<lambda>i. Inr (Suc i)))"

definition getidx :: "'a list \<Rightarrow> nat \<Rightarrow> pyerror + 'a" where
  "getidx xs i = (if i < length xs then Inr (xs ! i) else Inl IndexError)"

subsection \<open>The pandas table\<close>

text \<open>
  A DataFrame with the default index: the number of its rows and its columns in order,
  each a list of cells. A missing value (\<^verbatim>\<open>None\<close>, \<^verbatim>\<open>NaN\<close>) is \<open>CNone\<close>.
\<close>

datatype cell = CStr string | CInt int | CFloat pyfloat | CNone

record frame =
  nrows :: nat
  cols :: "(string \<times> cell list) list"

text \<open>The rows of a table, each a dict from column name to cell.\<close>

definition rows :: "frame \<Rightarrow> (string \<times> cell) list list" where
  "rows df = map (\<lambda>i. map (\<lambda>(n, c). (n, c ! i)) (cols df)) [0..<nrows df]"

text \<open>
  \<^verbatim>\<open>pd.DataFrame({'Country': .., 'Cluster': .., 'Cluster_Name': ..})\<close>: the three
  lists must have one length.
\<close>

definition DataFrame :: "string list \<Rightarrow> int list \<Rightarrow> string list \<Rightarrow> pyerror + frame" where
  "DataFrame cs cl ns =
     (if length cl = length cs \<and> length ns = length cs
      then Inr \<lparr>nrows = length cs,
                cols = [(''Country'', map CStr cs), (''Cluster'', map CInt cl),
                        (''Cluster_Name'', map CStr ns)]\<rparr>
      else Inl ValueError)"

text \<open>
  \<^verbatim>\<open>df[name] = vals\<close> for a list: the list must be as long as the index; an existing
  column is replaced in place, a new one is appended. A table without rows takes its
  index from a list that is not empty, and its other columns are filled with missing
  values.
\<close>

definition setitem :: "frame \<Rightarrow> string \<Rightarrow> cell list \<Rightarrow> pyerror + frame" where
  "setitem df name vals =
     (if nrows df = 0 \<and> vals \<noteq> []
      then Inr \<lparr>nrows = length vals,
                cols = AList.update name vals
                         (map (\<lambda>(n, c). (n, replicate (length vals) CNone)) (cols df))\<rparr>
      else if length vals \<noteq> nrows df then Inl ValueError
      else Inr (df\<lparr>cols := AList.update name vals (cols df)\<rparr>))"

text \<open>\<^verbatim>\<open>df[mask]\<close> for a boolean mask as long as the index.\<close>

definition select_rows :: "bool list \<Rightarrow> frame \<Rightarrow> frame" where
  "select_rows msk df =
     \<lparr>nrows = length (filter id msk),
      cols = map (\<lambda>(n, c). (n, map snd (filter fst (zip msk c)))) (cols df)\<rparr>"

subsection \<open>Building the table (lines 76-89)\<close>

text \<open>\<^verbatim>\<open>[data['cluster_labels'][str(c)] for c in data['clusters']]\<close>\<close>

fun cluster_names :: "dataset \<Rightarrow> int list \<Rightarrow> pyerror + string list" where
  "cluster_names d [] = Inr []"
| "cluster_names d (c # cs) =
     bind_err (getkey (cluster_labels d) ''cluster_labels'') (\<lambda>labels.
     bind_err (getitem labels (str_int c)) (\<lambda>name.
     bind_err (cluster_names d cs) (\<lambda>names. Inr (name # names))))"

text \<open>The loop over the methods, \<open>ms\<close> being the keys still to visit.\<close>

fun add_embeddings :: "(string \<times> embedding) list \<Rightarrow> string list \<Rightarrow> frame \<Rightarrow> pyerror + frame" where
  "add_embeddings embs [] df = Inr df"
| "add_embeddings embs (method # ms) df =
     bind_err (getitem embs method) (\<lambda>e.
     bind_err (getkey (emb_x e) ''x'') (\<lambda>xs.
     bind_err (setitem df (method @ ''_x'') (map CFloat xs)) (\<lambda>df1.
     bind_err (getitem embs method) (\<lambda>e'.
     bind_err (getkey (emb_y e') ''y'') (\<lambda>ys.
     bind_err (setitem df1 (method @ ''_y'') (map CFloat ys)) (\<lambda>df2.
     add_embeddings embs ms df2))))))"

definition cell_of :: "pyfloat option \<Rightarrow> cell" where
  "cell_of v = (case v of None \<Rightarrow> CNone | Some x \<Rightarrow> CFloat x)"

fun add_indicators :: "(string \<times> pyfloat option list) list \<Rightarrow> frame \<Rightarrow> pyerror + frame" where
  "add_indicators [] df = Inr df"
| "add_indicators ((indicator, vals) # rest) df =
     bind_err (setitem df indicator (map cell_of vals)) (\<lambda>df1. add_indicators rest df1)"

text \<open>The table \<^verbatim>\<open>df\<close>, which the specification calls \<^verbatim>\<open>build_rows\<close>.\<close>

definition build_rows :: "dataset \<Rightarrow> pyerror + frame" where
  "build_rows d =
     bind_err (getkey (countries d) ''countries'') (\<lambda>cs.
     bind_err (getkey (clusters d) ''clusters'') (\<lambda>cl.
     bind_err (cluster_names d cl) (\<lambda>names.
     bind_err (DataFrame cs cl names) (\<lambda>df.
     bind_err (getkey (embeddings d) ''embeddings'') (\<lambda>embs.
     bind_err (add_embeddings embs (map fst embs) df) (\<lambda>df1.
     add_indicators (get_indicators d) df1))))))"

subsection \<open>Filtering by cluster (lines 143-144)\<close>

text \<open>
  \<^verbatim>\<open>show_clusters\<close> is the dict the sidebar builds, from cluster id to the state of its
  check box. It is an input here.
\<close>

type_synonym show_clusters = "(int \<times> bool) list"

text \<open>\<^verbatim>\<open>[c for c, show in show_clusters.items() if show]\<close>\<close>

definition visible_ids :: "show_clusters \<Rightarrow> int list" where
  "visible_ids sc = map fst (filter snd sc)"

text \<open>Whether a float is equal to an int, by their exact values.\<close>

definition float_eq_int :: "pyfloat \<Rightarrow> int \<Rightarrow> bool" where
  "float_eq_int v n =
     (let m = (if neg v then - int (mant v) else int (mant v))
      in if 0 \<le> expo v then m * 2 ^ nat (expo v) = n else m = n * 2 ^ nat (- expo v))"

text \<open>One cell of \<^verbatim>\<open>column.isin(ids)\<close>.\<close>

fun cell_isin :: "cell \<Rightarrow> int list \<Rightarrow> bool" where
  "cell_isin (CInt n) ids = (n \<in> set ids)"
| "cell_isin (CFloat v) ids = list_ex (float_eq_int v) ids"
| "cell_isin (CStr s) ids = False"
| "cell_isin CNone ids = False"

text \<open>The table \<^verbatim>\<open>df_filtered\<close>, which the specification calls \<^verbatim>\<open>filter_rows\<close>.\<close>

definition filter_rows :: "frame \<Rightarrow> show_clusters \<Rightarrow> pyerror + frame" where
  "filter_rows df sc =
     bind_err (getitem (cols df) ''Cluster'') (\<lambda>cluster.
     Inr (select_rows (map (\<lambda>c. cell_isin c (visible_ids sc)) cluster) df))"

subsection \<open>The highlight of the selected country (lines 172-183)\<close>

record trace =
  tr_x :: "cell list"
  tr_y :: "cell list"
  tr_text :: "string list"

text \<open>One cell of \<^verbatim>\<open>df['Country'] == selected_country\<close>.\<close>

fun cell_eq_str :: "cell \<Rightarrow> string \<Rightarrow> bool" where
  "cell_eq_str (CStr s) t = (s = t)"
| "cell_eq_str c t = False"

text \<open>The trace added to the figure, if any. It reads \<^verbatim>\<open>df\<close>, not \<^verbatim>\<open>df_filtered\<close>.\<close>

definition highlight :: "frame \<Rightarrow> string \<Rightarrow> string \<Rightarrow> pyerror + trace option" where
  "highlight df method selected_country =
     (if selected_country = [] then Inr None
      else
        bind_err (getitem (cols df) ''Country'') (\<lambda>country.
        let cd = select_rows (map (\<lambda>c. cell_eq_str c selected_country) country) df
        in if 0 < nrows cd
           then bind_err (getitem (cols cd) (method @ ''_x'')) (\<lambda>xs.
                bind_err (getitem (cols cd) (method @ ''_y'')) (\<lambda>ys.
                Inr (Some \<lparr>tr_x = xs, tr_y = ys, tr_text = [selected_country]\<rparr>)))
           else Inr None))"

subsection \<open>Cluster profiles (lines 211-234)\<close>

definition cluster_colors :: "(int \<times> string) list" where
  "cluster_colors = [(0, ''#E63946''), (1, ''#2A9D8F''), (2, ''#E9C46A''), (3, ''#6A4C93'')]"

text \<open>\<^verbatim>\<open>show_clusters.get(cid, True)\<close>\<close>

definition show_get :: "show_clusters \<Rightarrow> int \<Rightarrow> bool" where
  "show_get sc cid = (case map_of sc cid of None \<Rightarrow> True | Some b \<Rightarrow> b)"

text \<open>\<^verbatim>\<open>data.get('cluster_averages', {}).get(str(cid), {})\<close>\<close>

definition avg_data :: "dataset \<Rightarrow> int \<Rightarrow> (string \<times> pyfloat option) list" where
  "avg_data d cid =
     (case cluster_averages d of
        None \<Rightarrow> []
      | Some ca \<Rightarrow> (case map_of ca (str_int cid) of None \<Rightarrow> [] | Some a \<Rightarrow> a))"

text \<open>
  The lines written under a profile (lines 226-232): one per average that is not
  \<^verbatim>\<open>None\<close>, the indicator's name and the text of its value.
\<close>

fun avg_lines :: "(string \<times> pyfloat option) list \<Rightarrow> (string \<times> string) list" where
  "avg_lines [] = []"
| "avg_lines ((ind_name, ind_val) # rest) =
     (case ind_val of
        Some v \<Rightarrow> (ind_name, fmt_value ind_name v) # avg_lines rest
      | None \<Rightarrow> avg_lines rest)"

record profile =
  p_cid :: int
  p_name :: string
  p_count :: nat
  p_color :: string
  p_avg :: "(string \<times> pyfloat option) list"
  p_lines :: "(string \<times> string) list"

text \<open>
  The body of the loop for one cluster id, which the specification calls
  \<^verbatim>\<open>cluster_summary\<close>.
\<close>

definition cluster_summary :: "dataset \<Rightarrow> int \<Rightarrow> pyerror + profile" where
  "cluster_summary d cid =
     bind_err (getkey (cluster_labels d) ''cluster_labels'') (\<lambda>labels.
     bind_err (getitem labels (str_int cid)) (\<lambda>name.
     bind_err (getkey (clusters d) ''clusters'') (\<lambda>cl.
     bind_err (case map_of cluster_colors cid of
                 None \<Rightarrow> Inl (KeyError (str_int cid)) | Some c \<Rightarrow> Inr c) (\<lambda>color.
     Inr \<lparr>p_cid = cid, p_name = name, p_count = length (filter (\<lambda>c. c = cid) cl),
          p_color = color, p_avg = avg_data d cid, p_lines = avg_lines (avg_data d cid)\<rparr>))))"

text \<open>\<^verbatim>\<open>for cid in range(4): if show_clusters.get(cid, True): ...\<close>\<close>

fun profiles_loop :: "dataset \<Rightarrow> show_clusters \<Rightarrow> int list \<Rightarrow> pyerror + profile list" where
  "profiles_loop d sc [] = Inr []"
| "profiles_loop d sc (cid # rest) =
     (if show_get sc cid
      then bind_err (cluster_summary d cid) (\<lambda>p.
           bind_err (profiles_loop d sc rest) (\<lambda>ps. Inr (p # ps)))
      else profiles_loop d sc rest)"

definition cluster_profiles :: "dataset \<Rightarrow> show_clusters \<Rightarrow> pyerror + profile list" where
  "cluster_profiles d sc = profiles_loop d sc [0, 1, 2, 3]"

subsection \<open>Country details (lines 241-258)\<close>

text \<open>
  A metric is the column it is put in, its label and its text. \<^verbatim>\<open>cols\<close> has three
  columns, the first one taken by the cluster; \<open>i\<close> is the next free column.
\<close>

type_synonym metric = "nat \<times> string \<times> string"

fun detail_loop :: "nat \<Rightarrow> nat \<Rightarrow> (string \<times> pyfloat option list) list \<Rightarrow> pyerror + metric list" where
  "detail_loop idx i [] = Inr []"
| "detail_loop idx i ((ind_name, ind_values) # rest) =
     (if i < 3
      then bind_err (getidx ind_values idx) (\<lambda>val.
           bind_err (detail_loop idx (i + 1) rest) (\<lambda>ms.
           Inr ((i, ind_name, metric_text ind_name val) # ms)))
      else detail_loop idx i rest)"

definition country_detail :: "dataset \<Rightarrow> string \<Rightarrow> pyerror + metric list" where
  "country_detail d selected_country =
     bind_err (getkey (countries d) ''countries'') (\<lambda>cs.
     bind_err (index_of cs selected_country) (\<lambda>idx.
     bind_err (getkey (clusters d) ''clusters'') (\<lambda>cl.
     bind_err (getidx cl idx) (\<lambda>cid.
     bind_err (getkey (cluster_labels d) ''cluster_labels'') (\<lambda>labels.
     bind_err (getitem labels (str_int cid)) (\<lambda>name.
     bind_err (detail_loop idx 1 (get_indicators d)) (\<lambda>ms.
     Inr ((0, ''Cluster'', name) # ms))))))))"

subsection \<open>Loading the document and running the script\<close>

text \<open>
  The file \<^verbatim>\<open>dashboard_data.json\<close> is absent (\<open>None\<close>) or holds a document, taken as
  parsed. What \<^verbatim>\<open>load_data\<close> shows is returned beside its result. The cache of
  \<^verbatim>\<open>st.cache_data\<close> is not modelled.
\<close>

datatype ui = StError string | StCode string

definition open_json :: "dataset option \<Rightarrow> pyerror + dataset" where
  "open_json file = (case file of None \<Rightarrow> Inl FileNotFoundError | Some d \<Rightarrow> Inr d)"

definition not_found_message :: string where
  "not_found_message =
     [CHR 0xE2, CHR 0x9D, CHR 0x8C] @
     '' `dashboard_data.json` not found. Please run the export script in your notebook first.''"

definition export_hint :: string where
  "export_hint =
     [CHR 0x0A] @ ''# Add this to your notebook after dimensionality reduction:'' @
     [CHR 0x0A] @ ''# See export_dashboard_data.py for the full code'' @
     [CHR 0x0A] @ ''        ''"

definition load_data :: "dataset option \<Rightarrow> ui list \<times> (pyerror + dataset)" where
  "load_data file =
     (case open_json file of
        Inr d \<Rightarrow> ([], Inr d)
      | Inl FileNotFoundError \<Rightarrow>
          ([StError not_found_message, StCode export_hint], Inl StopException)
      | Inl e \<Rightarrow> ([], Inl e))"

text \<open>
  What the user chose in the sidebar, and what the script computes from it after the
  document is loaded. Of the sidebar (lines 107-136) only the read of
  \<^verbatim>\<open>data['cluster_labels']\<close> is kept; the conversion of its keys by \<^verbatim>\<open>int\<close> and the
  widgets are not modelled. \<^verbatim>\<open>px.scatter\<close> refuses a column name that the table does
  not have.
\<close>

record inputs =
  in_method :: string
  in_selected :: string
  in_show :: show_clusters

record page =
  pg_df :: frame
  pg_filtered :: frame
  pg_highlight :: "trace option"
  pg_profiles :: "profile list"
  pg_detail :: "metric list option"

definition px_scatter :: "frame \<Rightarrow> string \<Rightarrow> string \<Rightarrow> pyerror + unit" where
  "px_scatter df x_col y_col =
     (if map_of (cols df) x_col \<noteq> None \<and> map_of (cols df) y_col \<noteq> None
      then Inr () else Inl ValueError)"

definition detail_section :: "dataset \<Rightarrow> string \<Rightarrow> pyerror + metric list option" where
  "detail_section d selected_country =
     (if selected_country = [] then Inr None
      else bind_err (country_detail d selected_country) (\<lambda>ms. Inr (Some ms)))"

definition main_content :: "dataset \<Rightarrow> inputs \<Rightarrow> pyerror + page" where
  "main_content d inp =
     bind_err (build_rows d) (\<lambda>df.
     bind_err (getkey (cluster_labels d) ''cluster_labels'') (\<lambda>_.
     bind_err (filter_rows df (in_show inp)) (\<lambda>df_filtered.
     bind_err (px_scatter df_filtered (in_method inp @ ''_x'') (in_method inp @ ''_y'')) (\<lambda>_.
     bind_err (highlight df (in_method inp) (in_selected inp)) (\<lambda>h.
     bind_err (cluster_profiles d (in_show inp)) (\<lambda>ps.
     bind_err (detail_section d (in_selected inp)) (\<lambda>dt.
     Inr \<lparr>pg_df = df, pg_filtered = df_filtered, pg_highlight = h,
          pg_profiles = ps, pg_detail = dt\<rparr>)))))))"

definition app :: "dataset option \<Rightarrow> inputs \<Rightarrow> ui list \<times> (pyerror + page)" where
  "app file inp =
     (case load_data file of
        (out, Inl e) \<Rightarrow> (out, Inl e)
      | (out, Inr d) \<Rightarrow> (out, main_content d inp))"

subsection \<open>Notions used to state the properties\<close>





text \<open>The doubles nearest to 52000.4 and to 7.86.\<close>

definition float_52000_4 :: pyfloat where
  "float_52000_4 = PyFloat False 7146880556125389 (- 37)"

definition float_7_86 :: pyfloat where
  "float_7_86 = PyFloat False 8849573267783025 (- 50)"

text \<open>
  A table is well formed when every column is as long as the index. A document is valid
  when it has the required keys, the country names are unique, every sequence indexed
  by country is as long as \<^verbatim>\<open>countries\<close>, every cluster id in use has a label, and no
  indicator bears the name of one of the three fixed columns of the table (the row of
  the data model has one field for each name).
\<close>

definition wf_frame :: "frame \<Rightarrow> bool" where
  "wf_frame df = list_all (\<lambda>(n, c). length c = nrows df) (cols df)"

definition reserved_columns :: "string list" where
  "reserved_columns = [''Country'', ''Cluster'', ''Cluster_Name'']"

definition valid_embedding :: "nat \<Rightarrow> embedding \<Rightarrow> bool" where
  "valid_embedding n e =
     (case (emb_x e, emb_y e) of
        (Some xs, Some ys) \<Rightarrow> length xs = n \<and> length ys = n
      | _ \<Rightarrow> False)"

definition valid :: "dataset \<Rightarrow> bool" where
  "valid d =
     (case (countries d, clusters d, cluster_labels d, embeddings d) of
        (Some cs, Some cl, Some labels, Some embs) \<Rightarrow>
          distinct cs \<and> length cl = length cs
          \<and> list_all (\<lambda>c. map_of labels (str_int c) \<noteq> None) cl
          \<and> list_all (\<lambda>(m, e). valid_embedding (length cs) e) embs
          \<and> list_all (\<lambda>(n, vs). length vs = length cs \<and> n \<notin> set reserved_columns)
               (get_indicators d)
      | _ \<Rightarrow> False)"

text \<open>Whether a row's cluster is one of the given ids.\<close>

definition row_cluster_in :: "int set \<Rightarrow> (string \<times> cell) list \<Rightarrow> bool" where
  "row_cluster_in ids r = (case map_of r ''Cluster'' of Some (CInt n) \<Rightarrow> n \<in> ids | _ \<Rightarrow> False)"

subsection \<open>Example documents\<close>

definition four_labels :: "(string \<times> string) list" where
  "four_labels = [(''0'', ''Developed Nations''), (''1'', ''Least Developed''),
                  (''2'', ''Emerging Economies''), (''3'', ''Developing Nations'')]"

definition pca :: embedding where
  "pca = \<lparr>emb_x = Some [PyFloat False 1 0, PyFloat True 3 (- 1), PyFloat False 5 (- 2)],
          emb_y = Some [PyFloat False 0 0, PyFloat False 1 (- 1), PyFloat True 7 (- 3)]\<rparr>"

text \<open>Three countries, one embedding, three indicators, averages for cluster 0.\<close>

definition sample :: dataset where
  "sample =
     \<lparr>countries = Some [''Norway'', ''Chad'', ''India''],
      clusters = Some [0, 1, 2],
      cluster_labels = Some four_labels,
      embeddings = Some [(''PCA'', pca)],
      indicators = Some [(''GDP per capita'', [Some float_52000_4, None, Some (PyFloat False 2100 0)]),
                         (''Life Expectancy'', [Some float_7_86, Some (PyFloat False 105 (- 1)), None]),
                         (''Infant Mortality'', [Some (PyFloat False 2 0), None, None])],
      cluster_averages = Some [(''0'', [(''GDP per capita'', Some float_52000_4),
                                        (''Life Expectancy'', None)])]\<rparr>"

text \<open>The sample without the key \<^verbatim>\<open>countries\<close>, and with one cluster id too few.\<close>

definition sample_no_countries :: dataset where
  "sample_no_countries = sample\<lparr>countries := None\<rparr>"

definition sample_short_clusters :: dataset where
  "sample_short_clusters = sample\<lparr>clusters := Some [0, 1]\<rparr>"

text \<open>The sample with a fifth cluster, labelled and in use.\<close>

definition sample_five :: dataset where
  "sample_five =
     sample\<lparr>clusters := Some [0, 7, 2],
            cluster_labels := Some (four_labels @ [(''7'', ''Island States'')])\<rparr>"

definition all_inputs :: inputs where
  "all_inputs = \<lparr>in_method = ''PCA'', in_selected = ''Chad'',
                  in_show = [(0, True), (1, True), (2, True), (3, True)]\<rparr>"

definition show_five :: show_clusters where
  "show_five = [(0, True), (1, True), (2, True), (3, True), (7, True)]"

text \<open>The table of the sample, and check boxes with cluster 1 switched off.\<close>

definition sample_frame :: frame where
  "sample_frame =
     \<lparr>nrows = 3,
      cols = [(''Country'', [CStr ''Norway'', CStr ''Chad'', CStr ''India'']),
              (''Cluster'', map CInt [0, 1, 2]),
              (''Cluster_Name'', [CStr ''Developed Nations'', CStr ''Least Developed'',
                                  CStr ''Emerging Economies'']),
              (''PCA_x'', [CFloat (PyFloat False 1 0), CFloat (PyFloat True 3 (- 1)),
                           CFloat (PyFloat False 5 (- 2))]),
              (''PCA_y'', [CFloat (PyFloat False 0 0), CFloat (PyFloat False 1 (- 1)),
                           CFloat (PyFloat True 7 (- 3))]),
              (''GDP per capita'', [CFloat float_52000_4, CNone, CFloat (PyFloat False 2100 0)]),
              (''Life Expectancy'', [CFloat float_7_86, CFloat (PyFloat False 105 (- 1)), CNone]),
              (''Infant Mortality'', [CFloat (PyFloat False 2 0), CNone, CNone])]\<rparr>"

definition show_without_1 :: show_clusters where
  "show_without_1 = [(0, True), (1, False), (2, True), (3, True)]"

text \<open>
  What adding columns to a table keeps: the index, well-formedness, the three fixed
  columns and the presence of every column.
\<close>

definition keeps :: "frame \<Rightarrow> frame \<Rightarrow> bool" where
  "keeps df df' =
     (nrows df' = nrows df \<and> wf_frame df'
      \<and> (\<forall>k\<in>set reserved_columns. map_of (cols df') k = map_of (cols df) k)
      \<and> (\<forall>k. map_of (cols df) k \<noteq> None \<longrightarrow> map_of (cols df') k \<noteq> None))"

text \<open>The sample with one indicator, which bears the name of the first column.\<close>

definition sample_clash :: dataset where
  "sample_clash = sample\<lparr>indicators := Some [(''Country'', [Some (PyFloat False 1 0), None, None])]\<rparr>"

section \<open>Properties\<close>

subsection \<open>Digits, grouping and rounding\<close>










lemma group3_length: "length ds \<le> length (group3 ds)"
  by (induction ds rule: group3.induct) auto






lemma starts_with_iff: "starts_with p s = (\<exists>b. s = p @ b)"
  by (induction p s rule: starts_with.induct) auto

lemma contains_iff: "contains sub s = (\<exists>a b. s = a @ sub @ b)"
proof (induction s)
  case Nil
  then show ?case by auto
next
  case (Cons c cs)
  show ?case
  proof
    assume "contains sub (c # cs)"
    then consider "starts_with sub (c # cs)" | "contains sub cs" by auto
    then show "\<exists>a b. c # cs = a @ sub @ b"
    proof cases
      case 1
      then obtain b where "c # cs = sub @ b" by (auto simp: starts_with_iff)
      then have "c # cs = [] @ sub @ b" by simp
      then show ?thesis by blast
    next
      case 2
      with Cons obtain a b where "cs = a @ sub @ b" by auto
      then have "c # cs = (c # a) @ sub @ b" by simp
      then show ?thesis by blast
    qed
  next
    assume "\<exists>a b. c # cs = a @ sub @ b"
    then obtain a b where ab: "c # cs = a @ sub @ b" by auto
    show "contains sub (c # cs)"
    proof (cases a)
      case Nil
      with ab have "starts_with sub (c # cs)" by (simp add: starts_with_iff)
      then show ?thesis by simp
    next
      case (Cons x xs)
      with ab have "cs = xs @ sub @ b" by simp
      with Cons.IH show ?thesis by auto
    qed
  qed
qed

lemma round_half_even_bounds:
  assumes "0 < den"
  shows "2 * num \<le> 2 * (round_half_even num den * den) + den
       \<and> 2 * (round_half_even num den * den) \<le> 2 * num + den"
proof -
  define p where "p = (num div den) * den"
  define r where "r = num mod den"
  have n: "num = p + r" and r: "r < den"
    using assms by (simp_all add: p_def r_def)
  show ?thesis
  proof (cases "den < 2 * r \<or> (2 * r = den \<and> odd (num div den))")
    case True
    then have e: "round_half_even num den * den = p + den"
      by (simp add: round_half_even_def Let_def r_def p_def)
    from True have "den \<le> 2 * r" by auto
    with n r e show ?thesis by linarith
  next
    case False
    then have e: "round_half_even num den * den = p"
      unfolding round_half_even_def Let_def r_def p_def by (simp only: if_False)
    from False have "2 * r \<le> den" by auto
    with n r e show ?thesis by linarith
  qed
qed

subsection \<open>Formatting of indicator values\<close>

text \<open>
  The two constants are the doubles that the literals \<^verbatim>\<open>52000.4\<close> and \<^verbatim>\<open>7.86\<close> denote:
  53-bit mantissas within half a unit in the last place of the decimal value.
\<close>

lemma float_52000_4_nearest:
  "2 ^ 52 \<le> mant float_52000_4 \<and> mant float_52000_4 < 2 ^ 53 \<and> expo float_52000_4 = - 37
   \<and> 2 * \<bar>int (mant float_52000_4) * 10 - 520004 * 2 ^ 37\<bar> \<le> 10"
  by (simp add: float_52000_4_def)

lemma float_7_86_nearest:
  "2 ^ 52 \<le> mant float_7_86 \<and> mant float_7_86 < 2 ^ 53 \<and> expo float_7_86 = - 50
   \<and> 2 * \<bar>int (mant float_7_86) * 100 - 786 * 2 ^ 50\<bar> \<le> 100"
  by (simp add: float_7_86_def)

lemma scaled_exact:
  "0 \<le> expo v \<Longrightarrow> scaled k v = mant v * 2 ^ nat (expo v) * 10 ^ k"
  by (simp add: scaled_def)

lemma scaled_nearest:
  assumes "expo v < 0"
  shows "2 * (mant v * 10 ^ k) \<le> 2 * (scaled k v * 2 ^ nat (- expo v)) + 2 ^ nat (- expo v)
       \<and> 2 * (scaled k v * 2 ^ nat (- expo v)) \<le> 2 * (mant v * 10 ^ k) + 2 ^ nat (- expo v)"
proof -
  have "(0::nat) < 2 ^ nat (- expo v)" by simp
  from round_half_even_bounds [OF this, of "mant v * 10 ^ k"] assms
  show ?thesis by (simp add: scaled_def)
qed




lemma scaled_52000_4: "scaled 0 float_52000_4 = 52000"
  by (simp add: scaled_def round_half_even_def float_52000_4_def Let_def)

lemma scaled_7_86: "scaled 1 float_7_86 = 79"
  by (simp add: scaled_def round_half_even_def float_7_86_def Let_def)

lemma dec_52000: "dec 52000 = ''52000''"
  by (simp add: dec.simps digit_def)

lemma dec_7_9: "dec 7 = ''7''" "dec 9 = ''9''"
  by (simp_all add: dec.simps digit_def)

lemma fmt_currency_52000_4: "fmt_currency float_52000_4 = ''$52,000''"
proof -
  have "commas ''52000'' = ''52,000''"
    by (simp add: commas_def)
  moreover have "sign_str float_52000_4 = ''''"
    by (simp add: sign_str_def float_52000_4_def)
  ultimately show ?thesis
    by (simp add: fmt_currency_def scaled_52000_4 dec_52000)
qed

lemma fmt_1f_7_86: "fmt_1f float_7_86 = ''7.9''"
proof -
  have "sign_str float_7_86 = ''''"
    by (simp add: sign_str_def float_7_86_def)
  moreover have "(79::nat) div 10 = 7" "(79::nat) mod 10 = 9"
    by simp_all
  ultimately show ?thesis
    unfolding fmt_1f_def scaled_7_86 Let_def by (simp add: dec_7_9)
qed

lemma metric_text_52000_4: "metric_text ''GDP per capita'' (Some float_52000_4) = ''$52,000''"
  by (simp add: metric_text_def fmt_value_def fmt_currency_52000_4)

lemma metric_text_7_86: "metric_text ''Life Expectancy'' (Some float_7_86) = ''7.9''"
  by (simp add: metric_text_def fmt_value_def fmt_1f_7_86)



subsection \<open>Raising and returning\<close>

lemma bind_err_simps [simp]:
  "bind_err (Inl e) f = Inl e"
  "bind_err (Inr v) f = f v"
  by (simp_all add: bind_err_def)

lemma getkey_simps [simp]:
  "getkey None k = Inl (KeyError k)"
  "getkey (Some v) k = Inr v"
  by (simp_all add: getkey_def)

lemma str_int_small:
  "str_int 0 = ''0''" "str_int 1 = ''1''" "str_int 2 = ''2''" "str_int 3 = ''3''"
  "str_int 7 = ''7''"
  by (simp_all add: str_int_def dec.simps digit_def)

subsection \<open>Loading\<close>

lemma load_data_present: "load_data (Some d) = ([], Inr d)"
  by (simp add: load_data_def open_json_def)

lemma message_mentions_export:
  "contains ''Please run the export script'' not_found_message"
  by (simp add: not_found_message_def)

text \<open>
  Claim C9. When the file is absent, opening it fails with \<^verbatim>\<open>FileNotFoundError\<close>;
  \<^verbatim>\<open>load_data\<close> then shows an error message that tells the user to run the export
  script, and stops the script: the run of the application ends there, whatever the
  inputs, with nothing more shown and no second attempt to open the file.
\<close>

theorem load_absent_halts:
  "open_json None = Inl FileNotFoundError
   \<and> load_data None = ([StError not_found_message, StCode export_hint], Inl StopException)
   \<and> app None inp = ([StError not_found_message, StCode export_hint], Inl StopException)
   \<and> contains ''Please run the export script'' not_found_message"
  by (simp add: open_json_def load_data_def app_def message_mentions_export)

subsection \<open>Malformed documents\<close>

lemma cluster_names_ok:
  assumes "cluster_labels d = Some labels"
    and "list_all (\<lambda>c. map_of labels (str_int c) \<noteq> None) cl"
  shows "cluster_names d cl = Inr (map (\<lambda>c. the (map_of labels (str_int c))) cl)"
  using assms by (induction cl) (auto simp: getitem_def)

lemma build_rows_no_countries:
  "countries d = None \<Longrightarrow> build_rows d = Inl (KeyError ''countries'')"
  by (simp add: build_rows_def)

lemma build_rows_length_mismatch:
  assumes "countries d = Some cs" "clusters d = Some cl" "cluster_labels d = Some labels"
    and "list_all (\<lambda>c. map_of labels (str_int c) \<noteq> None) cl"
    and "length cl \<noteq> length cs"
  shows "build_rows d = Inl ValueError"
  using assms by (simp add: build_rows_def cluster_names_ok DataFrame_def)

text \<open>
  Claim C3 says that loading raises an error of malformed data when a required key is
  missing or when \<^verbatim>\<open>clusters\<close> and \<^verbatim>\<open>countries\<close> differ in length. \<^verbatim>\<open>load_data\<close> checks
  nothing: it returns the sample without \<^verbatim>\<open>countries\<close>, and the sample with two cluster
  ids for three countries, as they are.
\<close>

theorem load_data_no_validation_counterexample:
  "countries sample_no_countries = None
   \<and> load_data (Some sample_no_countries) = ([], Inr sample_no_countries)
   \<and> map_option length (clusters sample_short_clusters) = Some 2
   \<and> map_option length (countries sample_short_clusters) = Some 3
   \<and> load_data (Some sample_short_clusters) = ([], Inr sample_short_clusters)"
  by (simp add: load_data_present sample_no_countries_def sample_short_clusters_def sample_def)

text \<open>
  Claim C3, amended. \<^verbatim>\<open>load_data\<close> returns every document that the file holds, without
  validation. A document without the key \<^verbatim>\<open>countries\<close> makes the construction of the
  table raise \<^verbatim>\<open>KeyError\<close> for that key, and a document whose \<^verbatim>\<open>clusters\<close> (all of them
  labelled) differ in length from \<^verbatim>\<open>countries\<close> makes it raise \<^verbatim>\<open>ValueError\<close>.
\<close>

theorem load_data_no_validation:
  "load_data (Some d) = ([], Inr d)
   \<and> (countries d = None \<longrightarrow> build_rows d = Inl (KeyError ''countries''))
   \<and> (countries d = Some cs \<and> clusters d = Some cl \<and> cluster_labels d = Some labels
        \<and> list_all (\<lambda>c. map_of labels (str_int c) \<noteq> None) cl \<and> length cl \<noteq> length cs
        \<longrightarrow> build_rows d = Inl ValueError)"
  using build_rows_no_countries [of d] build_rows_length_mismatch [of d cs cl labels]
  by (simp add: load_data_present)

theorem load_data_no_validation_witness:
  "countries sample_no_countries = None
   \<and> build_rows sample_no_countries = Inl (KeyError ''countries'')
   \<and> countries sample_short_clusters = Some [''Norway'', ''Chad'', ''India'']
   \<and> clusters sample_short_clusters = Some [0, 1]
   \<and> cluster_labels sample_short_clusters = Some four_labels
   \<and> list_all (\<lambda>c. map_of four_labels (str_int c) \<noteq> None) [0, 1]
   \<and> length [0, 1 :: int] \<noteq> length [''Norway'', ''Chad'', ''India'']
   \<and> build_rows sample_short_clusters = Inl ValueError"
proof -
  have a: "countries sample_no_countries = None"
    by (simp add: sample_no_countries_def)
  have b: "countries sample_short_clusters = Some [''Norway'', ''Chad'', ''India'']
      \<and> clusters sample_short_clusters = Some [0, 1]
      \<and> cluster_labels sample_short_clusters = Some four_labels
      \<and> list_all (\<lambda>c. map_of four_labels (str_int c) \<noteq> None) [0, 1]
      \<and> length [0, 1 :: int] \<noteq> length [''Norway'', ''Chad'', ''India'']"
    by (simp add: sample_short_clusters_def sample_def four_labels_def str_int_small)
  note t1 = load_data_no_validation [of sample_no_countries]
  note t2 = load_data_no_validation
    [of sample_short_clusters "[''Norway'', ''Chad'', ''India'']" "[0, 1]" four_labels]
  note r1 = t1 [THEN conjunct2, THEN conjunct1, THEN mp, OF a]
  note r2 = t2 [THEN conjunct2, THEN conjunct2, THEN mp, OF b]
  from a b r1 r2 show ?thesis by blast
qed

subsection \<open>Cluster profiles\<close>


lemma cluster_colors_range:
  "cid \<in> {0, 1, 2, 3} \<Longrightarrow> \<exists>c. map_of cluster_colors cid = Some c"
  by (auto simp: cluster_colors_def)

lemma cluster_colors_outside:
  "cid \<notin> {0, 1, 2, 3} \<Longrightarrow> map_of cluster_colors cid = None"
  by (auto simp: cluster_colors_def)

lemma cluster_summary_ok:
  assumes "cluster_labels d = Some labels" "map_of labels (str_int cid) = Some name"
    and "clusters d = Some cl" "map_of cluster_colors cid = Some color"
  shows "cluster_summary d cid =
           Inr \<lparr>p_cid = cid, p_name = name, p_count = length (filter (\<lambda>c. c = cid) cl),
                p_color = color, p_avg = avg_data d cid, p_lines = avg_lines (avg_data d cid)\<rparr>"
  using assms by (simp add: cluster_summary_def getitem_def)

lemma cluster_summary_cid:
  "cluster_summary d cid = Inr p \<Longrightarrow> p_cid p = cid \<and> p_lines p = avg_lines (p_avg p)"
  by (auto simp: cluster_summary_def bind_err_def split: sum.splits option.splits)




lemma avg_lines_filter:
  "avg_lines avg = map (\<lambda>(n, v). (n, fmt_value n (the v))) (filter (\<lambda>(n, v). v \<noteq> None) avg)"
  by (induction avg rule: avg_lines.induct) (auto split: option.splits)

lemma avg_lines_names:
  "map fst (avg_lines avg) = map fst (filter (\<lambda>(n, v). v \<noteq> None) avg)"
  by (simp add: avg_lines_filter case_prod_unfold)

lemma cluster_summary_sample_0:
  "cluster_summary sample 0 =
     Inr \<lparr>p_cid = 0, p_name = ''Developed Nations'', p_count = 1, p_color = ''#E63946'',
          p_avg = [(''GDP per capita'', Some float_52000_4), (''Life Expectancy'', None)],
          p_lines = [(''GDP per capita'', ''$52,000'')]\<rparr>"
  by (simp add: cluster_summary_def sample_def four_labels_def str_int_small cluster_colors_def
      getitem_def avg_data_def fmt_value_def fmt_currency_52000_4)

text \<open>
  Claim C7 says that the cluster profile shows \<^verbatim>\<open>N/A\<close> for an indicator whose average
  is null. In the sample the average of \<^verbatim>\<open>Life Expectancy\<close> for cluster 0 is null, and
  the profile has a line for \<^verbatim>\<open>GDP per capita\<close> only.
\<close>

theorem null_average_dropped_counterexample:
  "cluster_summary sample 0 =
     Inr \<lparr>p_cid = 0, p_name = ''Developed Nations'', p_count = 1, p_color = ''#E63946'',
          p_avg = [(''GDP per capita'', Some float_52000_4), (''Life Expectancy'', None)],
          p_lines = [(''GDP per capita'', ''$52,000'')]\<rparr>"
  by (rule cluster_summary_sample_0)

text \<open>
  Claim C7, amended. The lines of a cluster profile are the averages that are not null,
  in their order, each with the text of its value; an indicator whose average is null
  has no line, so that nothing is shown for it, neither \<^verbatim>\<open>N/A\<close> nor a zero.
\<close>

theorem null_average_dropped:
  "cluster_summary d cid = Inr p \<longrightarrow>
     p_lines p = map (\<lambda>(n, v). (n, fmt_value n (the v))) (filter (\<lambda>(n, v). v \<noteq> None) (p_avg p))
     \<and> (\<forall>n s. (n, s) \<in> set (p_lines p) \<longrightarrow> (\<exists>v. (n, Some v) \<in> set (p_avg p) \<and> s = fmt_value n v))"
proof
  assume "cluster_summary d cid = Inr p"
  then have l: "p_lines p = avg_lines (p_avg p)"
    by (simp add: cluster_summary_cid)
  have "\<forall>n s. (n, s) \<in> set (avg_lines (p_avg p)) \<longrightarrow> (\<exists>v. (n, Some v) \<in> set (p_avg p) \<and> s = fmt_value n v)"
    by (auto simp: avg_lines_filter)
  with l show "p_lines p = map (\<lambda>(n, v). (n, fmt_value n (the v))) (filter (\<lambda>(n, v). v \<noteq> None) (p_avg p))
     \<and> (\<forall>n s. (n, s) \<in> set (p_lines p) \<longrightarrow> (\<exists>v. (n, Some v) \<in> set (p_avg p) \<and> s = fmt_value n v))"
    by (simp add: avg_lines_filter)
qed

theorem null_average_dropped_witness:
  "\<exists>p. cluster_summary sample 0 = Inr p
     \<and> p_lines p = map (\<lambda>(n, v). (n, fmt_value n (the v))) (filter (\<lambda>(n, v). v \<noteq> None) (p_avg p))
     \<and> (\<forall>n s. (n, s) \<in> set (p_lines p) \<longrightarrow> (\<exists>v. (n, Some v) \<in> set (p_avg p) \<and> s = fmt_value n v))"
  using cluster_summary_sample_0
    null_average_dropped [THEN mp, OF cluster_summary_sample_0]
  by blast

lemma profiles_loop_ids:
  "profiles_loop d sc cids = Inr ps \<Longrightarrow> map p_cid ps = filter (show_get sc) cids"
proof (induction cids arbitrary: ps)
  case Nil
  then show ?case by simp
next
  case (Cons cid rest)
  show ?case
  proof (cases "show_get sc cid")
    case True
    with Cons.prems obtain p ps' where p: "cluster_summary d cid = Inr p"
      and r: "profiles_loop d sc rest = Inr ps'" and ps: "ps = p # ps'"
      by (auto simp: bind_err_def split: sum.splits)
    from Cons.IH [OF r] p ps True show ?thesis
      by (simp add: cluster_summary_cid)
  next
    case False
    with Cons show ?thesis by simp
  qed
qed

lemma profiles_loop_total:
  assumes "cluster_labels d = Some labels" "clusters d = Some cl"
    and "\<forall>c\<in>set cids. map_of labels (str_int c) \<noteq> None \<and> c \<in> {0, 1, 2, 3}"
  shows "\<exists>ps. profiles_loop d sc cids = Inr ps"
  using assms(3)
proof (induction cids)
  case Nil
  then show ?case by simp
next
  case (Cons cid rest)
  then obtain ps where r: "profiles_loop d sc rest = Inr ps" by auto
  from Cons.prems obtain name where n: "map_of labels (str_int cid) = Some name" by auto
  from Cons.prems have "cid \<in> {0, 1, 2, 3}" by simp
  then obtain color where c: "map_of cluster_colors cid = Some color"
    using cluster_colors_range by blast
  show ?case
    by (simp add: cluster_summary_ok [OF assms(1) n assms(2) c] r)
qed

text \<open>
  Claim C8. Whatever the document and the check boxes, the profiles that are produced
  are those of the ids among 0, 1, 2, 3 whose box is not switched off, in that order; a
  cluster id outside 0 to 3 never has a profile, even when it is in use, labelled and
  has a check box of its own. With labels for 0 to 3 and the key \<^verbatim>\<open>clusters\<close> the loop
  completes.
\<close>

theorem cluster_profiles_range:
  "(cluster_profiles d sc = Inr ps \<longrightarrow>
      map p_cid ps = filter (show_get sc) [0, 1, 2, 3]
      \<and> (\<forall>c. c \<notin> {0, 1, 2, 3} \<longrightarrow> c \<notin> p_cid ` set ps))
   \<and> (cluster_labels d = Some labels \<and> clusters d = Some cl
        \<and> (\<forall>c\<in>{0, 1, 2, 3}. map_of labels (str_int c) \<noteq> None)
        \<longrightarrow> (\<exists>qs. cluster_profiles d sc = Inr qs))"
proof (intro conjI impI)
  assume a: "cluster_profiles d sc = Inr ps"
  then show "map p_cid ps = filter (show_get sc) [0, 1, 2, 3]"
    unfolding cluster_profiles_def by (rule profiles_loop_ids)
  then have "set (map p_cid ps) = {c \<in> set [0, 1, 2, 3]. show_get sc c}"
    by (simp only: set_filter)
  then have "p_cid ` set ps \<subseteq> {0, 1, 2, 3}"
    by auto
  then show "\<forall>c. c \<notin> {0, 1, 2, 3} \<longrightarrow> c \<notin> p_cid ` set ps"
    by blast
next
  assume "cluster_labels d = Some labels \<and> clusters d = Some cl
        \<and> (\<forall>c\<in>{0, 1, 2, 3}. map_of labels (str_int c) \<noteq> None)"
  then show "\<exists>qs. cluster_profiles d sc = Inr qs"
    unfolding cluster_profiles_def
    by (intro profiles_loop_total [of d labels cl]) auto
qed

theorem cluster_profiles_range_witness:
  "cluster_labels sample_five = Some (four_labels @ [(''7'', ''Island States'')])
   \<and> clusters sample_five = Some [0, 7, 2]
   \<and> show_get show_five 7
   \<and> map_of (four_labels @ [(''7'', ''Island States'')]) (str_int 7) = Some ''Island States''
   \<and> (\<exists>ps. cluster_profiles sample_five show_five = Inr ps
          \<and> map p_cid ps = [0, 1, 2, 3] \<and> 7 \<notin> p_cid ` set ps)"
proof -
  have a: "cluster_labels sample_five = Some (four_labels @ [(''7'', ''Island States'')])"
    by (simp add: sample_five_def)
  have b: "clusters sample_five = Some [0, 7, 2]"
    by (simp add: sample_five_def)
  have c: "show_get show_five 7"
    by (simp add: show_get_def show_five_def)
  have e: "\<forall>c\<in>{0, 1, 2, 3}. map_of (four_labels @ [(''7'', ''Island States'')]) (str_int c) \<noteq> None"
    by (simp add: four_labels_def str_int_small)
  have f: "filter (show_get show_five) [0, 1, 2, 3] = [0, 1, 2, 3]"
    by (simp add: show_get_def show_five_def)
  from cluster_profiles_range [of sample_five show_five _ "four_labels @ [(''7'', ''Island States'')]" "[0, 7, 2]"]
    a b e
  obtain qs where q: "cluster_profiles sample_five show_five = Inr qs"
    by blast
  from cluster_profiles_range [of sample_five show_five qs] q f
  have "map p_cid qs = [0, 1, 2, 3] \<and> 7 \<notin> p_cid ` set qs"
    by simp
  with q have "\<exists>ps. cluster_profiles sample_five show_five = Inr ps
          \<and> map p_cid ps = [0, 1, 2, 3] \<and> 7 \<notin> p_cid ` set ps"
    by (intro exI [of _ qs]) simp
  moreover have "map_of (four_labels @ [(''7'', ''Island States'')]) (str_int 7) = Some ''Island States''"
    by (simp add: four_labels_def str_int_small)
  ultimately show ?thesis
    using a b c by (intro conjI)
qed

subsection \<open>Country details\<close>

lemma index_of_absent: "v \<notin> set xs \<Longrightarrow> index_of xs v = Inl ValueError"
  by (induction xs) auto

lemma index_of_distinct: "distinct xs \<Longrightarrow> i < length xs \<Longrightarrow> index_of xs (xs ! i) = Inr i"
proof (induction xs arbitrary: i)
  case Nil
  then show ?case by simp
next
  case (Cons x xs)
  show ?case
  proof (cases i)
    case 0
    then show ?thesis by simp
  next
    case (Suc j)
    with Cons.prems have "xs ! j \<in> set xs" "x \<notin> set xs" by auto
    then have "x \<noteq> xs ! j" by auto
    with Suc Cons show ?thesis by simp
  qed
qed

lemma detail_loop_full: "3 \<le> i \<Longrightarrow> detail_loop idx i inds = Inr []"
  by (induction inds) auto

lemma detail_loop_ok:
  "list_all (\<lambda>(n, vs). idx < length vs) inds \<Longrightarrow>
   detail_loop idx i inds =
     Inr (map (\<lambda>(k, n, vs). (k, n, metric_text n (vs ! idx))) (enumerate i (take (3 - i) inds)))"
proof (induction inds arbitrary: i)
  case Nil
  then show ?case by simp
next
  case (Cons a inds)
  obtain n vs where a: "a = (n, vs)" by (cases a)
  show ?case
  proof (cases "i < 3")
    case True
    then have t: "3 - i = Suc (3 - Suc i)" by simp
    from Cons.prems a have "idx < length vs" "list_all (\<lambda>(n, vs). idx < length vs) inds"
      by simp_all
    with Cons.IH [of "Suc i"] True a show ?thesis
      by (simp add: getidx_def t)
  next
    case False
    then show ?thesis by (simp add: detail_loop_full)
  qed
qed

text \<open>
  Claim C5 says that the details of a country give the value of every indicator. The
  sample has three indicators; the details of Norway are its cluster and the first two
  of them, since only three columns exist and the cluster takes the first.
\<close>

theorem country_detail_all_indicators_counterexample:
  "map fst (get_indicators sample) = [''GDP per capita'', ''Life Expectancy'', ''Infant Mortality'']
   \<and> country_detail sample ''Norway'' =
        Inr [(0, ''Cluster'', ''Developed Nations''), (1, ''GDP per capita'', ''$52,000''),
             (2, ''Life Expectancy'', ''7.9'')]"
  by (simp add: country_detail_def sample_def get_indicators_def getitem_def getidx_def
      four_labels_def str_int_small metric_text_52000_4 metric_text_7_86)

text \<open>
  Claim C5, amended. For a name that is not in \<^verbatim>\<open>countries\<close> the lookup of its index
  raises \<^verbatim>\<open>ValueError\<close> (the specification's not-found error). For the country at
  index \<open>i\<close> of a document with unique country names, a label for its cluster and
  sequences as long as \<^verbatim>\<open>countries\<close>, the details are the name of its cluster in
  column 0 and then, for the first two indicators of the document only, in columns 1
  and 2, the text of the value at index \<open>i\<close> of the indicator's sequence.
\<close>

theorem country_detail_first_two:
  "(countries d = Some cs \<and> sel \<notin> set cs \<longrightarrow> country_detail d sel = Inl ValueError)
   \<and> (countries d = Some cs \<and> clusters d = Some cl \<and> cluster_labels d = Some labels
        \<and> distinct cs \<and> i < length cs \<and> length cl = length cs
        \<and> map_of labels (str_int (cl ! i)) = Some name
        \<and> list_all (\<lambda>(n, vs). length vs = length cs) (get_indicators d)
      \<longrightarrow> country_detail d (cs ! i) =
            Inr ((0, ''Cluster'', name)
                 # map (\<lambda>(k, n, vs). (k, n, metric_text n (vs ! i)))
                     (enumerate 1 (take 2 (get_indicators d)))))"
proof (intro conjI impI)
  assume "countries d = Some cs \<and> sel \<notin> set cs"
  then show "country_detail d sel = Inl ValueError"
    by (simp add: country_detail_def index_of_absent)
next
  assume h: "countries d = Some cs \<and> clusters d = Some cl \<and> cluster_labels d = Some labels
        \<and> distinct cs \<and> i < length cs \<and> length cl = length cs
        \<and> map_of labels (str_int (cl ! i)) = Some name
        \<and> list_all (\<lambda>(n, vs). length vs = length cs) (get_indicators d)"
  then have "list_all (\<lambda>(n, vs). i < length vs) (get_indicators d)"
    by (auto simp: list_all_iff)
  then have "detail_loop i 1 (get_indicators d) =
      Inr (map (\<lambda>(k, n, vs). (k, n, metric_text n (vs ! i))) (enumerate 1 (take 2 (get_indicators d))))"
    using detail_loop_ok [of i "get_indicators d" 1] by simp
  with h show "country_detail d (cs ! i) =
            Inr ((0, ''Cluster'', name)
                 # map (\<lambda>(k, n, vs). (k, n, metric_text n (vs ! i)))
                     (enumerate 1 (take 2 (get_indicators d))))"
    by (simp add: country_detail_def index_of_distinct getidx_def getitem_def)
qed

theorem country_detail_first_two_witness:
  "countries sample = Some [''Norway'', ''Chad'', ''India''] \<and> ''Atlantis'' \<notin> set [''Norway'', ''Chad'', ''India'']
   \<and> country_detail sample ''Atlantis'' = Inl ValueError
   \<and> clusters sample = Some [0, 1, 2] \<and> cluster_labels sample = Some four_labels
   \<and> distinct [''Norway'', ''Chad'', ''India'']
   \<and> map_of four_labels (str_int ([0, 1, 2] ! 1)) = Some ''Least Developed''
   \<and> list_all (\<lambda>(n, vs). length vs = length [''Norway'', ''Chad'', ''India'']) (get_indicators sample)
   \<and> country_detail sample ([''Norway'', ''Chad'', ''India''] ! 1) =
        Inr ((0, ''Cluster'', ''Least Developed'')
             # map (\<lambda>(k, n, vs). (k, n, metric_text n (vs ! 1)))
                 (enumerate 1 (take 2 (get_indicators sample))))"
proof -
  have a: "countries sample = Some [''Norway'', ''Chad'', ''India''] \<and> ''Atlantis'' \<notin> set [''Norway'', ''Chad'', ''India'']"
    by (simp add: sample_def)
  have b: "countries sample = Some [''Norway'', ''Chad'', ''India''] \<and> clusters sample = Some [0, 1, 2]
        \<and> cluster_labels sample = Some four_labels
        \<and> distinct [''Norway'', ''Chad'', ''India''] \<and> 1 < length [''Norway'', ''Chad'', ''India'']
        \<and> length [0, 1, 2 :: int] = length [''Norway'', ''Chad'', ''India'']
        \<and> map_of four_labels (str_int ([0, 1, 2] ! 1)) = Some ''Least Developed''
        \<and> list_all (\<lambda>(n, vs). length vs = length [''Norway'', ''Chad'', ''India'']) (get_indicators sample)"
    by (simp add: sample_def four_labels_def str_int_small get_indicators_def)
  note t1 = country_detail_first_two [of sample "[''Norway'', ''Chad'', ''India'']" "''Atlantis''",
      THEN conjunct1, THEN mp, OF a]
  note t2 = country_detail_first_two [of sample "[''Norway'', ''Chad'', ''India'']" _ "[0, 1, 2]"
      four_labels 1 "''Least Developed''", THEN conjunct2, THEN mp, OF b]
  from a b t1 t2 show ?thesis by simp
qed

subsection \<open>Selecting rows of a table\<close>

lemma select_nths:
  "length msk = length c \<Longrightarrow>
   map snd (filter fst (zip msk c)) = map ((!) c) (filter ((!) msk) [0..<length c])"
proof -
  assume l: "length msk = length c"
  have "zip msk c = map (\<lambda>i. (msk ! i, c ! i)) [0..<length c]"
    using l by (intro nth_equalityI) simp_all
  then show ?thesis
    by (simp add: filter_map comp_def)
qed

lemma length_filter_id:
  "length (filter id msk) = length (filter ((!) msk) [0..<length msk])"
proof -
  have "filter id msk = map ((!) msk) (filter ((!) msk) [0..<length msk])"
  proof -
    have "msk = map ((!) msk) [0..<length msk]"
      by (simp add: map_nth)
    then have "filter id msk = filter id (map ((!) msk) [0..<length msk])"
      by simp
    then show ?thesis
      by (simp add: filter_map comp_def)
  qed
  then have "length (filter id msk) = length (map ((!) msk) (filter ((!) msk) [0..<length msk]))"
    by simp
  then show ?thesis by simp
qed

lemma map_of_cols_map:
  "map_of (map (\<lambda>(n, c). (n, f c)) al) k = map_option f (map_of al k)"
  by (induction al) auto

lemma wf_frame_col:
  "wf_frame df \<Longrightarrow> map_of (cols df) k = Some c \<Longrightarrow> length c = nrows df"
  by (auto simp: wf_frame_def list_all_iff dest: map_of_SomeD)

lemma rows_length [simp]: "length (rows df) = nrows df"
  by (simp add: rows_def)

lemma rows_nth:
  "i < nrows df \<Longrightarrow> map_of (rows df ! i) k = map_option (\<lambda>c. c ! i) (map_of (cols df) k)"
  by (simp add: rows_def map_of_cols_map)

lemma rows_select:
  assumes "wf_frame df" "length msk = nrows df"
  shows "rows (select_rows msk df) = map ((!) (rows df)) (filter ((!) msk) [0..<nrows df])"
proof -
  let ?keep = "filter ((!) msk) [0..<nrows df]"
  have n: "nrows (select_rows msk df) = length ?keep"
    using assms(2) by (simp add: select_rows_def length_filter_id)
  have k: "\<And>j. j < length ?keep \<Longrightarrow> ?keep ! j < nrows df"
  proof -
    fix j assume "j < length ?keep"
    then have "?keep ! j \<in> set ?keep" by (rule nth_mem)
    then show "?keep ! j < nrows df" by simp
  qed
  have c: "\<And>nm c. (nm, c) \<in> set (cols df) \<Longrightarrow>
             map snd (filter fst (zip msk c)) = map ((!) c) ?keep"
  proof -
    fix nm c assume "(nm, c) \<in> set (cols df)"
    with assms(1) have "length c = nrows df"
      by (auto simp: wf_frame_def list_all_iff)
    with assms(2) show "map snd (filter fst (zip msk c)) = map ((!) c) ?keep"
      using select_nths [of msk c] by simp
  qed
  show ?thesis
  proof (rule nth_equalityI)
    show "length (rows (select_rows msk df)) = length (map ((!) (rows df)) ?keep)"
      using n by simp
  next
    fix j assume "j < length (rows (select_rows msk df))"
    then have j: "j < length ?keep" using n by simp
    have "rows (select_rows msk df) ! j
          = map (\<lambda>(nm, c). (nm, map snd (filter fst (zip msk c)) ! j)) (cols df)"
      using j n by (simp add: rows_def select_rows_def case_prod_unfold comp_def)
    also have "\<dots> = map (\<lambda>(nm, c). (nm, c ! (?keep ! j))) (cols df)"
      using c j by (intro map_cong) auto
    also have "\<dots> = rows df ! (?keep ! j)"
      using k [OF j] by (simp add: rows_def)
    finally show "rows (select_rows msk df) ! j = map ((!) (rows df)) ?keep ! j"
      using j by simp
  qed
qed

lemma rows_select_filter:
  assumes "wf_frame df" "length msk = nrows df"
    and "\<And>i. i < nrows df \<Longrightarrow> P (rows df ! i) = msk ! i"
  shows "rows (select_rows msk df) = filter P (rows df)"
proof -
  have "filter P (rows df) = filter P (map ((!) (rows df)) [0..<nrows df])"
    using map_nth [of "rows df"] by simp
  also have "\<dots> = map ((!) (rows df)) (filter (P \<circ> (!) (rows df)) [0..<nrows df])"
    by (simp add: filter_map)
  also have "filter (P \<circ> (!) (rows df)) [0..<nrows df] = filter ((!) msk) [0..<nrows df]"
    using assms(3) by (intro filter_cong) auto
  finally show ?thesis
    using rows_select [OF assms(1,2)] by simp
qed

subsection \<open>Filtering\<close>

lemma build_rows_sample: "build_rows sample = Inr sample_frame"
  by (simp add: build_rows_def sample_def pca_def four_labels_def getitem_def DataFrame_def
      setitem_def str_int_small cell_of_def get_indicators_def sample_frame_def)

lemma wf_sample_frame: "wf_frame sample_frame"
  by (simp add: wf_frame_def sample_frame_def)

lemma select_all_col:
  "length msk = length c \<Longrightarrow> \<forall>b\<in>set msk. b \<Longrightarrow> map snd (filter fst (zip msk c)) = c"
proof (induction msk arbitrary: c)
  case Nil
  then show ?case by simp
next
  case (Cons b msk)
  then show ?case by (cases c) auto
qed

lemma select_all:
  assumes "wf_frame df" "length msk = nrows df" "\<forall>b\<in>set msk. b"
  shows "select_rows msk df = df"
proof -
  have "filter id msk = msk"
    using assms(3) by (induction msk) auto
  then have n: "length (filter id msk) = nrows df"
    using assms(2) by simp
  have "map (\<lambda>(n, c). (n, map snd (filter fst (zip msk c)))) (cols df) = map (\<lambda>x. x) (cols df)"
  proof (rule map_cong [OF refl])
    fix x assume x: "x \<in> set (cols df)"
    obtain nm c where nc: "x = (nm, c)" by (cases x)
    with x assms(1) have "length c = nrows df"
      by (auto simp: wf_frame_def list_all_iff)
    with assms(2,3) nc show "(case x of (n, c) \<Rightarrow> (n, map snd (filter fst (zip msk c)))) = x"
      by (simp add: select_all_col)
  qed
  with n show ?thesis
    by (simp add: select_rows_def)
qed

lemma filter_rows_select:
  assumes "map_of (cols df) ''Cluster'' = Some (map CInt ns)"
  shows "filter_rows df sc = Inr (select_rows (map (\<lambda>n. n \<in> set (visible_ids sc)) ns) df)"
  using assms by (simp add: filter_rows_def getitem_def comp_def)

lemma row_cluster_in_nth:
  assumes "map_of (cols df) ''Cluster'' = Some (map CInt ns)" "i < nrows df" "length ns = nrows df"
  shows "row_cluster_in S (rows df ! i) = (ns ! i \<in> S)"
  using assms by (simp add: row_cluster_in_def rows_nth)

text \<open>
  Claim C2. For a well-formed table with an integer column \<^verbatim>\<open>Cluster\<close> and any check
  boxes, the filtered table exists and its rows are exactly the rows of the table whose
  cluster is among the visible ids, in their original order. When no id is visible
  there is no row left; when every cluster of the table is visible the table is
  returned unchanged.
\<close>

theorem filter_rows_keeps_visible:
  assumes "wf_frame df" "map_of (cols df) ''Cluster'' = Some (map CInt ns)"
  shows "\<exists>fl. filter_rows df sc = Inr fl
           \<and> rows fl = filter (row_cluster_in (set (visible_ids sc))) (rows df)
           \<and> (set (visible_ids sc) = {} \<longrightarrow> rows fl = [])
           \<and> (set ns \<subseteq> set (visible_ids sc) \<longrightarrow> fl = df)"
proof -
  let ?msk = "map (\<lambda>n. n \<in> set (visible_ids sc)) ns"
  let ?fl = "select_rows ?msk df"
  have l: "length ns = nrows df"
    using wf_frame_col [OF assms] by simp
  have r: "rows ?fl = filter (row_cluster_in (set (visible_ids sc))) (rows df)"
  proof (rule rows_select_filter [OF assms(1)])
    show "length ?msk = nrows df" using l by simp
  next
    fix i assume "i < nrows df"
    then show "row_cluster_in (set (visible_ids sc)) (rows df ! i) = ?msk ! i"
      using l by (simp add: row_cluster_in_nth [OF assms(2)])
  qed
  have e: "set (visible_ids sc) = {} \<longrightarrow> rows ?fl = []"
    unfolding r by (auto simp: row_cluster_in_def split: option.splits cell.splits)
  have a: "set ns \<subseteq> set (visible_ids sc) \<longrightarrow> ?fl = df"
  proof
    assume "set ns \<subseteq> set (visible_ids sc)"
    then have "\<forall>b\<in>set ?msk. b" by auto
    then show "?fl = df"
      using l by (intro select_all [OF assms(1)]) simp_all
  qed
  from r e a show ?thesis
    unfolding filter_rows_select [OF assms(2)] by blast
qed

lemma rows_sample_frame_without_1:
  "filter (row_cluster_in (set (visible_ids show_without_1))) (rows sample_frame)
     = [rows sample_frame ! 0, rows sample_frame ! 2]"
  by (simp add: rows_def sample_frame_def row_cluster_in_def visible_ids_def show_without_1_def
      upt_rec numeral_2_eq_2 numeral_3_eq_3)

theorem filter_rows_keeps_visible_witness:
  "wf_frame sample_frame \<and> map_of (cols sample_frame) ''Cluster'' = Some (map CInt [0, 1, 2])
   \<and> (\<exists>fl. filter_rows sample_frame show_without_1 = Inr fl
          \<and> rows fl = [rows sample_frame ! 0, rows sample_frame ! 2])
   \<and> set [0, 1, 2] \<subseteq> set (visible_ids show_five)
   \<and> filter_rows sample_frame show_five = Inr sample_frame
   \<and> set (visible_ids []) = {}
   \<and> (\<exists>fl. filter_rows sample_frame [] = Inr fl \<and> rows fl = [])"
proof -
  have a: "wf_frame sample_frame" by (rule wf_sample_frame)
  have b: "map_of (cols sample_frame) ''Cluster'' = Some (map CInt [0, 1, 2])"
    by (simp add: sample_frame_def)
  have c: "set [0, 1, 2] \<subseteq> set (visible_ids show_five)"
    by (simp add: visible_ids_def show_five_def)
  have e: "set (visible_ids []) = {}"
    by (simp add: visible_ids_def)
  from filter_rows_keeps_visible [OF a b, of show_without_1]
  have 1: "\<exists>fl. filter_rows sample_frame show_without_1 = Inr fl
          \<and> rows fl = [rows sample_frame ! 0, rows sample_frame ! 2]"
    unfolding rows_sample_frame_without_1 by blast
  from filter_rows_keeps_visible [OF a b, of show_five] c
  have 2: "filter_rows sample_frame show_five = Inr sample_frame"
    by auto
  from filter_rows_keeps_visible [OF a b, of "[]"] e
  have 3: "\<exists>fl. filter_rows sample_frame [] = Inr fl \<and> rows fl = []"
    by blast
  from a b c e 1 2 3 show ?thesis by (intro conjI)
qed

subsection \<open>Building the table\<close>

lemma list_all_update:
  "list_all P al \<Longrightarrow> P (k, v) \<Longrightarrow> list_all P (AList.update k v al)"
  by (induction al) auto

lemma suffix_not_reserved:
  "m @ ''_x'' \<notin> set reserved_columns" "m @ ''_y'' \<notin> set reserved_columns"
proof -
  have "rev (m @ ''_x'') \<notin> rev ` set reserved_columns"
    by (simp add: reserved_columns_def)
  then show "m @ ''_x'' \<notin> set reserved_columns" by blast
  have "rev (m @ ''_y'') \<notin> rev ` set reserved_columns"
    by (simp add: reserved_columns_def)
  then show "m @ ''_y'' \<notin> set reserved_columns" by blast
qed

lemma keeps_refl: "wf_frame df \<Longrightarrow> keeps df df"
  by (simp add: keeps_def)

lemma keeps_trans: "keeps a b \<Longrightarrow> keeps b c \<Longrightarrow> keeps a c"
  by (simp add: keeps_def)

lemma keeps_setitem:
  assumes "wf_frame df" "length vals = nrows df" "name \<notin> set reserved_columns"
  shows "\<exists>df'. setitem df name vals = Inr df' \<and> keeps df df'
           \<and> map_of (cols df') name = Some vals"
proof -
  let ?df = "df\<lparr>cols := AList.update name vals (cols df)\<rparr>"
  have "setitem df name vals = Inr ?df"
    using assms(2) by (auto simp: setitem_def)
  moreover have "wf_frame ?df"
    using assms(1,2) by (simp add: wf_frame_def list_all_update)
  then have "keeps df ?df"
    using assms(3) by (auto simp: keeps_def update_conv')
  moreover have "map_of (cols ?df) name = Some vals"
    by (simp add: update_conv')
  ultimately show ?thesis by blast
qed

lemma add_embeddings_keeps:
  assumes "wf_frame df"
    and "\<forall>m\<in>set ms. \<exists>e. map_of embs m = Some e \<and> valid_embedding (nrows df) e"
  shows "\<exists>df'. add_embeddings embs ms df = Inr df' \<and> keeps df df'
           \<and> (\<forall>m\<in>set ms. map_of (cols df') (m @ ''_x'') \<noteq> None
                         \<and> map_of (cols df') (m @ ''_y'') \<noteq> None)"
  using assms
proof (induction ms arbitrary: df)
  case Nil
  then show ?case by (simp add: keeps_refl)
next
  case (Cons m ms)
  from Cons.prems(2) obtain e where e: "map_of embs m = Some e"
    and v: "valid_embedding (nrows df) e" by auto
  from v obtain xs ys where x: "emb_x e = Some xs" and y: "emb_y e = Some ys"
    and lx: "length xs = nrows df" and ly: "length ys = nrows df"
    by (auto simp: valid_embedding_def split: option.splits)
  from keeps_setitem [OF Cons.prems(1), of "map CFloat xs" "m @ ''_x''"] lx
  obtain df1 where s1: "setitem df (m @ ''_x'') (map CFloat xs) = Inr df1"
    and k1: "keeps df df1" and c1: "map_of (cols df1) (m @ ''_x'') = Some (map CFloat xs)"
    using suffix_not_reserved(1) by auto
  have w1: "wf_frame df1" and n1: "nrows df1 = nrows df"
    using k1 by (simp_all add: keeps_def)
  from keeps_setitem [OF w1, of "map CFloat ys" "m @ ''_y''"] ly n1
  obtain df2 where s2: "setitem df1 (m @ ''_y'') (map CFloat ys) = Inr df2"
    and k2: "keeps df1 df2" and c2: "map_of (cols df2) (m @ ''_y'') = Some (map CFloat ys)"
    using suffix_not_reserved(2) by auto
  have w2: "wf_frame df2" and n2: "nrows df2 = nrows df"
    using k2 n1 by (simp_all add: keeps_def)
  have "\<forall>m\<in>set ms. \<exists>e. map_of embs m = Some e \<and> valid_embedding (nrows df2) e"
    using Cons.prems(2) n2 by simp
  from Cons.IH [OF w2 this]
  obtain df' where r: "add_embeddings embs ms df2 = Inr df'" and k: "keeps df2 df'"
    and cs: "\<forall>m\<in>set ms. map_of (cols df') (m @ ''_x'') \<noteq> None
                         \<and> map_of (cols df') (m @ ''_y'') \<noteq> None"
    by blast
  have "add_embeddings embs (m # ms) df = Inr df'"
    by (simp add: getitem_def e x y s1 s2 r)
  moreover have "keeps df df'"
    by (rule keeps_trans [OF keeps_trans [OF k1 k2] k])
  moreover have "map_of (cols df2) (m @ ''_x'') \<noteq> None"
    using k2 c1 by (simp add: keeps_def)
  then have "map_of (cols df') (m @ ''_x'') \<noteq> None"
    using k by (simp add: keeps_def)
  moreover have "map_of (cols df') (m @ ''_y'') \<noteq> None"
    using k c2 by (simp add: keeps_def)
  ultimately show ?case
    using cs by auto
qed

lemma add_indicators_keeps:
  assumes "wf_frame df"
    and "list_all (\<lambda>(n, vs). length vs = nrows df \<and> n \<notin> set reserved_columns) inds"
  shows "\<exists>df'. add_indicators inds df = Inr df' \<and> keeps df df'"
  using assms
proof (induction inds arbitrary: df)
  case Nil
  then show ?case by (simp add: keeps_refl)
next
  case (Cons a inds)
  obtain n vs where a: "a = (n, vs)" by (cases a)
  with Cons.prems(2) have l: "length (map cell_of vs) = nrows df" and r: "n \<notin> set reserved_columns"
    and rest: "list_all (\<lambda>(n, vs). length vs = nrows df \<and> n \<notin> set reserved_columns) inds"
    by simp_all
  from keeps_setitem [OF Cons.prems(1) l r]
  obtain df1 where s1: "setitem df n (map cell_of vs) = Inr df1" and k1: "keeps df df1"
    by blast
  have w1: "wf_frame df1" and n1: "nrows df1 = nrows df"
    using k1 by (simp_all add: keeps_def)
  from Cons.IH [OF w1] rest n1
  obtain df' where "add_indicators inds df1 = Inr df'" and "keeps df1 df'"
    by auto
  with a s1 k1 show ?case
    by (auto intro: keeps_trans)
qed

lemma build_rows_valid:
  assumes "valid d" "countries d = Some cs" "clusters d = Some cl" "cluster_labels d = Some labels"
    and "embeddings d = Some embs"
  shows "\<exists>df. build_rows d = Inr df \<and> nrows df = length cs \<and> wf_frame df
           \<and> map_of (cols df) ''Country'' = Some (map CStr cs)
           \<and> map_of (cols df) ''Cluster'' = Some (map CInt cl)
           \<and> map_of (cols df) ''Cluster_Name''
               = Some (map (\<lambda>c. CStr (the (map_of labels (str_int c)))) cl)
           \<and> (\<forall>m\<in>fst ` set embs. map_of (cols df) (m @ ''_x'') \<noteq> None
                              \<and> map_of (cols df) (m @ ''_y'') \<noteq> None)"
proof -
  from assms have len: "length cl = length cs"
    and lab: "list_all (\<lambda>c. map_of labels (str_int c) \<noteq> None) cl"
    and emb: "list_all (\<lambda>(m, e). valid_embedding (length cs) e) embs"
    and ind: "list_all (\<lambda>(n, vs). length vs = length cs \<and> n \<notin> set reserved_columns)
               (get_indicators d)"
    by (simp_all add: valid_def)
  define names where "names = map (\<lambda>c. the (map_of labels (str_int c))) cl"
  define df0 where "df0 = \<lparr>nrows = length cs,
               cols = [(''Country'', map CStr cs), (''Cluster'', map CInt cl),
                       (''Cluster_Name'', map CStr names)]\<rparr>"
  have n: "cluster_names d cl = Inr names"
    unfolding names_def by (rule cluster_names_ok [OF assms(4) lab])
  have f: "DataFrame cs cl names = Inr df0"
    using len by (simp add: DataFrame_def df0_def names_def)
  have w0: "wf_frame df0"
    using len by (simp add: wf_frame_def df0_def names_def)
  have n0: "nrows df0 = length cs"
    by (simp add: df0_def)
  have "\<forall>m\<in>set (map fst embs). \<exists>e. map_of embs m = Some e \<and> valid_embedding (nrows df0) e"
  proof
    fix m assume "m \<in> set (map fst embs)"
    then have "map_of embs m \<noteq> None"
      by (simp add: map_of_eq_None_iff)
    then obtain e where e: "map_of embs m = Some e"
      by auto
    then have "(m, e) \<in> set embs" by (rule map_of_SomeD)
    with emb have "valid_embedding (length cs) e"
      by (auto simp: list_all_iff)
    with e n0 show "\<exists>e. map_of embs m = Some e \<and> valid_embedding (nrows df0) e"
      by simp
  qed
  from add_embeddings_keeps [OF w0 this]
  obtain df1 where a1: "add_embeddings embs (map fst embs) df0 = Inr df1"
    and k1: "keeps df0 df1"
    and c1: "\<forall>m\<in>set (map fst embs). map_of (cols df1) (m @ ''_x'') \<noteq> None
                         \<and> map_of (cols df1) (m @ ''_y'') \<noteq> None"
    by blast
  have w1: "wf_frame df1" and n1: "nrows df1 = length cs"
    using k1 n0 by (simp_all add: keeps_def)
  from add_indicators_keeps [OF w1, of "get_indicators d"] ind n1
  obtain df where a2: "add_indicators (get_indicators d) df1 = Inr df" and k2: "keeps df1 df"
    by auto
  have k: "keeps df0 df"
    using k1 k2 by (rule keeps_trans)
  have "build_rows d = Inr df"
    by (simp add: build_rows_def assms(2,3,5) n f a1 a2)
  moreover have "nrows df = length cs" "wf_frame df"
    using k n0 by (simp_all add: keeps_def)
  moreover have "map_of (cols df) ''Country'' = Some (map CStr cs)"
    "map_of (cols df) ''Cluster'' = Some (map CInt cl)"
    "map_of (cols df) ''Cluster_Name'' = Some (map (\<lambda>c. CStr (the (map_of labels (str_int c)))) cl)"
    using k by (simp_all add: keeps_def reserved_columns_def df0_def names_def comp_def)
  moreover have "\<forall>m\<in>fst ` set embs. map_of (cols df) (m @ ''_x'') \<noteq> None
                              \<and> map_of (cols df) (m @ ''_y'') \<noteq> None"
    using c1 k2 by (simp add: keeps_def)
  ultimately show ?thesis by blast
qed

lemma valid_sample: "valid sample"
  by (simp add: valid_def sample_def pca_def valid_embedding_def four_labels_def str_int_small
      get_indicators_def reserved_columns_def)

text \<open>
  Claim C1 says that for every valid document the rows of the table carry the country
  names, in order. An indicator is written into the table under its own name, after the
  three fixed columns (line 89); in the sample with an indicator named \<^verbatim>\<open>Country\<close>, which
  has the required keys and lengths, the values of that indicator take the place of the
  country names.
\<close>

theorem build_rows_aligned_counterexample:
  "countries sample_clash = Some [''Norway'', ''Chad'', ''India'']
   \<and> get_indicators sample_clash = [(''Country'', [Some (PyFloat False 1 0), None, None])]
   \<and> build_rows sample_clash =
     Inr \<lparr>nrows = 3,
          cols = [(''Country'', [CFloat (PyFloat False 1 0), CNone, CNone]),
                  (''Cluster'', map CInt [0, 1, 2]),
                  (''Cluster_Name'', [CStr ''Developed Nations'', CStr ''Least Developed'',
                                      CStr ''Emerging Economies'']),
                  (''PCA_x'', [CFloat (PyFloat False 1 0), CFloat (PyFloat True 3 (- 1)),
                               CFloat (PyFloat False 5 (- 2))]),
                  (''PCA_y'', [CFloat (PyFloat False 0 0), CFloat (PyFloat False 1 (- 1)),
                               CFloat (PyFloat True 7 (- 3))])]\<rparr>"
  by (simp add: build_rows_def sample_clash_def sample_def pca_def four_labels_def getitem_def
      DataFrame_def setitem_def str_int_small cell_of_def get_indicators_def)

text \<open>
  Claim C1, amended. For every valid document, where valid includes that no indicator is
  named \<^verbatim>\<open>Country\<close>, \<^verbatim>\<open>Cluster\<close> or \<^verbatim>\<open>Cluster_Name\<close>, the table is built and has as many
  rows as there are countries; row \<open>i\<close> holds country \<open>i\<close>, its cluster id and the
  label of that cluster id.
\<close>

theorem build_rows_aligned:
  assumes "valid d" "countries d = Some cs" "clusters d = Some cl" "cluster_labels d = Some labels"
  shows "\<exists>df. build_rows d = Inr df \<and> length (rows df) = length cs
           \<and> (\<forall>i<length cs.
                 map_of (rows df ! i) ''Country'' = Some (CStr (cs ! i))
                 \<and> map_of (rows df ! i) ''Cluster'' = Some (CInt (cl ! i))
                 \<and> (\<exists>name. map_of labels (str_int (cl ! i)) = Some name
                       \<and> map_of (rows df ! i) ''Cluster_Name'' = Some (CStr name)))"
proof -
  from assms obtain embs where e: "embeddings d = Some embs"
    by (auto simp: valid_def split: option.splits)
  from assms have len: "length cl = length cs"
    and lab: "list_all (\<lambda>c. map_of labels (str_int c) \<noteq> None) cl"
    by (simp_all add: valid_def e)
  from build_rows_valid [OF assms e]
  obtain df where b: "build_rows d = Inr df" and n: "nrows df = length cs"
    and c1: "map_of (cols df) ''Country'' = Some (map CStr cs)"
    and c2: "map_of (cols df) ''Cluster'' = Some (map CInt cl)"
    and c3: "map_of (cols df) ''Cluster_Name''
               = Some (map (\<lambda>c. CStr (the (map_of labels (str_int c)))) cl)"
    by blast
  have "\<forall>i<length cs.
                 map_of (rows df ! i) ''Country'' = Some (CStr (cs ! i))
                 \<and> map_of (rows df ! i) ''Cluster'' = Some (CInt (cl ! i))
                 \<and> (\<exists>name. map_of labels (str_int (cl ! i)) = Some name
                       \<and> map_of (rows df ! i) ''Cluster_Name'' = Some (CStr name))"
  proof (intro allI impI)
    fix i assume i: "i < length cs"
    with len have "cl ! i \<in> set cl" by simp
    with lab obtain name where nm: "map_of labels (str_int (cl ! i)) = Some name"
      by (auto simp: list_all_iff)
    from i n len show "map_of (rows df ! i) ''Country'' = Some (CStr (cs ! i))
                 \<and> map_of (rows df ! i) ''Cluster'' = Some (CInt (cl ! i))
                 \<and> (\<exists>name. map_of labels (str_int (cl ! i)) = Some name
                       \<and> map_of (rows df ! i) ''Cluster_Name'' = Some (CStr name))"
      by (simp add: rows_nth c1 c2 c3 nm)
  qed
  with b n show ?thesis
    by (intro exI [of _ df]) simp
qed

theorem build_rows_aligned_witness:
  "valid sample \<and> countries sample = Some [''Norway'', ''Chad'', ''India'']
   \<and> clusters sample = Some [0, 1, 2] \<and> cluster_labels sample = Some four_labels
   \<and> (\<exists>df. build_rows sample = Inr df \<and> length (rows df) = length [''Norway'', ''Chad'', ''India'']
           \<and> (\<forall>i<length [''Norway'', ''Chad'', ''India''].
                 map_of (rows df ! i) ''Country'' = Some (CStr ([''Norway'', ''Chad'', ''India''] ! i))
                 \<and> map_of (rows df ! i) ''Cluster'' = Some (CInt ([0, 1, 2] ! i))
                 \<and> (\<exists>name. map_of four_labels (str_int ([0, 1, 2] ! i)) = Some name
                       \<and> map_of (rows df ! i) ''Cluster_Name'' = Some (CStr name))))"
proof -
  have a: "countries sample = Some [''Norway'', ''Chad'', ''India'']"
    and b: "clusters sample = Some [0, 1, 2]"
    and c: "cluster_labels sample = Some four_labels"
    by (simp_all add: sample_def)
  note t = build_rows_aligned [OF valid_sample a b c]
  show ?thesis
    by (intro conjI valid_sample a b c t)
qed

subsection \<open>The highlight and the filter\<close>







end
